theory Spec2Isabelle
  imports Complex_Main
begin

section \<open>JavaScript values\<close>

text \<open>
  The plugin exchanges JSON with a local JSON-RPC server and receives its tool arguments
  as JSON. A JavaScript value is one of the JSON values or \<open>undefined\<close> (what reading a
  missing property gives). Numbers are modelled as reals: the finite doubles are a subset
  of them on which \<open><\<close>, \<open>\<le>\<close> and \<open>=\<close> agree; NaN and the infinities cannot come out of
  \<open>JSON.parse\<close>. An object is the association list of its own properties.
\<close>

datatype jsval =
    Undefined
  | Null
  | JBool bool
  | JNum real
  | JStr string
  | JArr "jsval list"
  | JObj "(string \<times> jsval) list"

text \<open>The errors a call can throw, as values.\<close>

datatype zod_issue = invalid_type | too_small | too_big | invalid_enum_value

datatype js_error =
    FetchFailed                               \<comment> \<open>\<open>fetch\<close> rejects: no connection\<close>
  | HttpError nat                             \<comment> \<open>\<open>new Error(`HTTP ${res.status}`)\<close>\<close>
  | SyntaxError                               \<comment> \<open>\<open>res.json()\<close> rejects: the body is not JSON\<close>
  | TypeError                                 \<comment> \<open>property read on \<open>null\<close> or \<open>undefined\<close>\<close>
  | RpcError jsval                            \<comment> \<open>\<open>new Error(data.error)\<close>\<close>
  | ParamsInvalid "(string \<times> zod_issue) list"  \<comment> \<open>the tool's parameter schema refuses the arguments\<close>

text \<open>\<open>if (v)\<close>: the falsy values are \<open>undefined\<close>, \<open>null\<close>, \<open>false\<close>, \<open>0\<close> and \<open>""\<close>.\<close>

fun truthy :: "jsval \<Rightarrow> bool" where
  "truthy Undefined = False"
| "truthy Null = False"
| "truthy (JBool b) = b"
| "truthy (JNum r) = (r \<noteq> 0)"
| "truthy (JStr s) = (s \<noteq> [])"
| "truthy (JArr vs) = True"
| "truthy (JObj kvs) = True"

text \<open>Looking a key up among the own properties of an object.\<close>

definition field :: "(string \<times> jsval) list \<Rightarrow> string \<Rightarrow> jsval" where
  "field kvs k = (case map_of kvs k of None \<Rightarrow> Undefined | Some v \<Rightarrow> v)"

text \<open>
  \<open>v.k\<close> for the keys the plugin reads (\<open>error\<close>, \<open>result\<close>, \<open>image\<close>): a TypeError on
  \<open>null\<close> and \<open>undefined\<close>, the property of an object, and \<open>undefined\<close> on a boolean,
  number, string or array, none of which has a property of these names.
\<close>

fun get_prop :: "jsval \<Rightarrow> string \<Rightarrow> js_error + jsval" where
  "get_prop Undefined k = Inl TypeError"
| "get_prop Null k = Inl TypeError"
| "get_prop (JObj kvs) k = Inr (field kvs k)"
| "get_prop v k = Inr Undefined"

text \<open>
  An object literal as \<open>JSON.stringify\<close> sends it: a property whose value is
  \<open>undefined\<close> is left out.
\<close>

definition json_obj :: "(string \<times> jsval) list \<Rightarrow> jsval" where
  "json_obj kvs = JObj (filter (\<lambda>kv. snd kv \<noteq> Undefined) kvs)"

section \<open>The JSON-RPC helper\<close>

text \<open>
  A request is the port of the URL \<open>http://127.0.0.1:${port}/rpc\<close> and the posted
  body. The server is a function from the request to what \<open>fetch\<close> resolves to:
  \<open>None\<close> when it rejects, otherwise a response with its status and what
  \<open>res.json()\<close> parses from its body (\<open>None\<close> for a body that is not JSON).
\<close>

record rpc_request =
  url_port :: nat
  req_body :: jsval

record http_response =
  status :: nat
  json :: "jsval option"

type_synonym rpc_server = "rpc_request \<Rightarrow> http_response option"

text \<open>The result of an effectful call: the requests it sent, and its value or its error.\<close>

type_synonym 'a io = "rpc_request list \<times> (js_error + 'a)"

text \<open>\<open>res.ok\<close> of the Fetch standard: the status is in the range 200 to 299.\<close>

definition res_ok :: "http_response \<Rightarrow> bool" where
  "res_ok res = (200 \<le> status res \<and> status res \<le> 299)"

text \<open>\<open>{ jsonrpc: "2.0", method, params, id: 1 }\<close>, with the default \<open>params = {}\<close>.\<close>

definition rpc_payload :: "string \<Rightarrow> jsval \<Rightarrow> jsval" where
  "rpc_payload method params =
     json_obj [(''jsonrpc'', JStr ''2.0''), (''method'', JStr method),
               (''params'', (if params = Undefined then JObj [] else params)),
               (''id'', JNum 1)]"

text \<open>
  What both helpers do once the body is parsed:
  \<^verbatim>\<open>if (data.error) throw new Error(data.error); return data.result;\<close>
\<close>

definition result_of :: "jsval \<Rightarrow> js_error + jsval" where
  "result_of data =
     (case get_prop data ''error'' of
        Inl e \<Rightarrow> Inl e
      | Inr err \<Rightarrow> if truthy err then Inl (RpcError err) else get_prop data ''result'')"

text \<open>
  The helper of the compiled plugin (build of AB498_Control_Plugin):
  \<^verbatim>\<open>
  if (!res.ok) throw new Error(`HTTP ${res.status}`);
  const data = await res.json();
  if (data.error) throw new Error(data.error);
  return data.result;
  \<close>
\<close>

definition respond_js :: "http_response option \<Rightarrow> js_error + jsval" where
  "respond_js r =
     (case r of
        None \<Rightarrow> Inl FetchFailed
      | Some res \<Rightarrow>
          if \<not> res_ok res then Inl (HttpError (status res))
          else (case json res of
                  None \<Rightarrow> Inl SyntaxError
                | Some data \<Rightarrow> result_of data))"

definition callRpc_js :: "rpc_server \<Rightarrow> nat \<Rightarrow> string \<Rightarrow> jsval \<Rightarrow> jsval io" where
  "callRpc_js srv port method params =
     (let req = \<lparr>url_port = port, req_body = rpc_payload method params\<rparr>
      in ([req], respond_js (srv req)))"

text \<open>
  The helper of the TypeScript plugin, which never looks at the status:
  \<^verbatim>\<open>
  const data = await r.json();
  if (data.error) throw new Error(data.error);
  return data.result;
  \<close>
\<close>

definition respond_ts :: "http_response option \<Rightarrow> js_error + jsval" where
  "respond_ts r =
     (case r of
        None \<Rightarrow> Inl FetchFailed
      | Some res \<Rightarrow>
          (case json res of
             None \<Rightarrow> Inl SyntaxError
           | Some data \<Rightarrow> result_of data))"

definition callRpc_ts :: "rpc_server \<Rightarrow> nat \<Rightarrow> string \<Rightarrow> jsval \<Rightarrow> jsval io" where
  "callRpc_ts srv port method params =
     (let req = \<lparr>url_port = port, req_body = rpc_payload method params\<rparr>
      in ([req], respond_ts (srv req)))"

section \<open>Parameter schemas\<close>

text \<open>
  The tools declare their parameters with the schema library and the SDK's \<open>tool\<close>
  parses the arguments against \<open>z.object(parameters)\<close> before it runs the
  implementation. A schema is the function that parses a value: the parsed value, or the
  issue it raises. Only the combinators the plugin uses are modelled.
\<close>

type_synonym zod_type = "jsval \<Rightarrow> zod_issue + jsval"

definition z_number :: zod_type where
  "z_number v = (case v of JNum r \<Rightarrow> Inr (JNum r) | _ \<Rightarrow> Inl invalid_type)"

definition z_string :: zod_type where
  "z_string v = (case v of JStr s \<Rightarrow> Inr (JStr s) | _ \<Rightarrow> Inl invalid_type)"

definition z_enum :: "string list \<Rightarrow> zod_type" where
  "z_enum vals v =
     (case v of
        JStr s \<Rightarrow> if s \<in> set vals then Inr (JStr s) else Inl invalid_enum_value
      | _ \<Rightarrow> Inl invalid_type)"

text \<open>\<open>.min(m)\<close> and \<open>.max(m)\<close> are inclusive bounds.\<close>

definition z_min :: "real \<Rightarrow> zod_type \<Rightarrow> zod_type" where
  "z_min m t v =
     (case t v of
        Inr (JNum r) \<Rightarrow> if r < m then Inl too_small else Inr (JNum r)
      | other \<Rightarrow> other)"

definition z_max :: "real \<Rightarrow> zod_type \<Rightarrow> zod_type" where
  "z_max m t v =
     (case t v of
        Inr (JNum r) \<Rightarrow> if m < r then Inl too_big else Inr (JNum r)
      | other \<Rightarrow> other)"

text \<open>\<open>.optional()\<close> lets \<open>undefined\<close> through; \<open>.default(d)\<close> parses \<open>d\<close> in its place.\<close>

definition z_optional :: "zod_type \<Rightarrow> zod_type" where
  "z_optional t v = (if v = Undefined then Inr Undefined else t v)"

definition z_default :: "jsval \<Rightarrow> zod_type \<Rightarrow> zod_type" where
  "z_default d t v = (if v = Undefined then t d else t v)"

text \<open>
  \<open>z.object(shape)\<close>: every key of the shape is parsed from the property of that name,
  all the issues are collected, keys outside the shape are dropped, and a key whose
  parsed value is \<open>undefined\<close> is not set in the output.
\<close>

fun parse_shape ::
  "(string \<times> zod_type) list \<Rightarrow> (string \<times> jsval) list \<Rightarrow>
     (string \<times> zod_issue) list \<times> (string \<times> jsval) list" where
  "parse_shape [] kvs = ([], [])"
| "parse_shape ((k, t) # shape) kvs =
     (let (issues, out) = parse_shape shape kvs
      in case t (field kvs k) of
           Inl i \<Rightarrow> ((k, i) # issues, out)
         | Inr v \<Rightarrow> (issues, if v = Undefined then out else (k, v) # out))"

definition z_object :: "(string \<times> zod_type) list \<Rightarrow> jsval \<Rightarrow> js_error + jsval" where
  "z_object shape v =
     (case v of
        JObj kvs \<Rightarrow>
          (case parse_shape shape kvs of
             ([], out) \<Rightarrow> Inr (JObj out)
           | (issues, out) \<Rightarrow> Inl (ParamsInvalid issues))
      | _ \<Rightarrow> Inl (ParamsInvalid [([], invalid_type)]))"

text \<open>
  The SDK's \<open>tool\<close>: arguments that do not parse throw before the implementation runs,
  so nothing is sent; otherwise the implementation gets the parsed arguments.
\<close>

definition tool ::
  "(string \<times> zod_type) list \<Rightarrow> (rpc_server \<Rightarrow> jsval \<Rightarrow> jsval io) \<Rightarrow>
     rpc_server \<Rightarrow> jsval \<Rightarrow> jsval io" where
  "tool parameters implementation srv raw =
     (case z_object parameters raw of
        Inl e \<Rightarrow> ([], Inl e)
      | Inr args \<Rightarrow> implementation srv args)"

text \<open>Reading a parameter out of the parsed arguments (\<open>({ text, interval }) => ...\<close>).\<close>

definition arg :: "jsval \<Rightarrow> string \<Rightarrow> jsval" where
  "arg args k = (case args of JObj kvs \<Rightarrow> field kvs k | _ \<Rightarrow> Undefined)"

text \<open>\<open>await c; return v\<close> and \<open>return (await c).k\<close>: an error of \<open>c\<close> propagates.\<close>

definition then_return :: "jsval io \<Rightarrow> jsval \<Rightarrow> jsval io" where
  "then_return c v =
     (case c of (reqs, Inl e) \<Rightarrow> (reqs, Inl e) | (reqs, Inr r) \<Rightarrow> (reqs, Inr v))"

definition then_prop :: "jsval io \<Rightarrow> string \<Rightarrow> jsval io" where
  "then_prop c k =
     (case c of (reqs, Inl e) \<Rightarrow> (reqs, Inl e) | (reqs, Inr r) \<Rightarrow> (reqs, get_prop r k))"

section \<open>The tools\<close>

definition port :: nat where
  "port = 3011"

subsection \<open>The compiled plugin: keyboard_type, mouse_click, mouse_move, screen_capture\<close>




definition screenCapture :: "rpc_server \<Rightarrow> jsval \<Rightarrow> jsval io" where
  "screenCapture =
     tool [] (\<lambda>srv args. then_prop (callRpc_js srv port ''screen_capture'' Undefined) ''image'')"

subsection \<open>The TypeScript plugin: type_text, click_screen, move_mouse, take_screenshot\<close>

definition typeText :: "rpc_server \<Rightarrow> jsval \<Rightarrow> jsval io" where
  "typeText =
     tool [(''text'', z_string)]
       (\<lambda>srv args.
          then_return
            (callRpc_ts srv port ''type_text'' (json_obj [(''text'', arg args ''text'')]))
            (JStr ''typed''))"

definition click_screen_parameters :: "(string \<times> zod_type) list" where
  "click_screen_parameters =
     [(''x'', z_optional z_number),
      (''y'', z_optional z_number),
      (''x_rel'', z_optional (z_max 1 (z_min 0 z_number))),
      (''y_rel'', z_optional (z_max 1 (z_min 0 z_number))),
      (''button'', z_default (JStr ''left'') (z_optional (z_enum [''left'', ''right'', ''middle''])))]"

definition clickScreen :: "rpc_server \<Rightarrow> jsval \<Rightarrow> jsval io" where
  "clickScreen =
     tool click_screen_parameters
       (\<lambda>srv args. then_return (callRpc_ts srv port ''click_screen'' args) (JStr ''clicked''))"

definition move_mouse_parameters :: "(string \<times> zod_type) list" where
  "move_mouse_parameters =
     [(''x'', z_optional z_number),
      (''y'', z_optional z_number),
      (''x_rel'', z_optional (z_max 1 (z_min 0 z_number))),
      (''y_rel'', z_optional (z_max 1 (z_min 0 z_number))),
      (''duration'', z_default (JNum 0.2) (z_optional z_number))]"

definition moveMouse :: "rpc_server \<Rightarrow> jsval \<Rightarrow> jsval io" where
  "moveMouse =
     tool move_mouse_parameters
       (\<lambda>srv args. then_return (callRpc_ts srv port ''move_mouse'' args) (JStr ''moved''))"

definition takeScreenshot :: "rpc_server \<Rightarrow> jsval \<Rightarrow> jsval io" where
  "takeScreenshot =
     tool [] (\<lambda>srv args. then_prop (callRpc_ts srv port ''take_screenshot'' Undefined) ''image'')"

section \<open>What the schemas accept\<close>

text \<open>
  The conditions under which a property passes its schema, as predicates on the raw
  value, and what the parsed arguments then hold.
\<close>

fun is_num :: "jsval \<Rightarrow> bool" where
  "is_num (JNum r) = True"
| "is_num v = False"

fun in_unit :: "jsval \<Rightarrow> bool" where
  "in_unit (JNum r) = (0 \<le> r \<and> r \<le> 1)"
| "in_unit v = False"

fun is_button :: "jsval \<Rightarrow> bool" where
  "is_button (JStr s) = (s \<in> set [''left'', ''right'', ''middle''])"
| "is_button v = False"

definition absent_or :: "(jsval \<Rightarrow> bool) \<Rightarrow> jsval \<Rightarrow> bool" where
  "absent_or P v = (v = Undefined \<or> P v)"

definition with_default :: "jsval \<Rightarrow> jsval \<Rightarrow> jsval" where
  "with_default d v = (if v = Undefined then d else v)"


definition valid_coordinates :: "(string \<times> jsval) list \<Rightarrow> bool" where
  "valid_coordinates kvs =
     (absent_or is_num (field kvs ''x'') \<and> absent_or is_num (field kvs ''y'') \<and>
      absent_or in_unit (field kvs ''x_rel'') \<and> absent_or in_unit (field kvs ''y_rel''))"

definition valid_click :: "(string \<times> jsval) list \<Rightarrow> bool" where
  "valid_click kvs = (valid_coordinates kvs \<and> absent_or is_button (field kvs ''button''))"

definition valid_move :: "(string \<times> jsval) list \<Rightarrow> bool" where
  "valid_move kvs = (valid_coordinates kvs \<and> absent_or is_num (field kvs ''duration''))"

text \<open>The request a tool posts for a method and its parameters.\<close>

definition rpc_call :: "string \<Rightarrow> jsval \<Rightarrow> rpc_request" where
  "rpc_call method params = \<lparr>url_port = port, req_body = rpc_payload method params\<rparr>"

text \<open>Servers that answer every request alike, for concrete runs.\<close>

definition always :: "http_response \<Rightarrow> rpc_server" where
  "always res req = Some res"

definition done_response :: http_response where
  "done_response = \<lparr>status = 200, json = Some (JObj [(''result'', JStr ''done'')])\<rparr>"




definition internal_error_response :: http_response where
  "internal_error_response =
     \<lparr>status = 500, json = Some (JObj [(''detail'', JStr ''Internal Server Error'')])\<rparr>"

definition image_response :: http_response where
  "image_response =
     \<lparr>status = 200,
      json = Some (JObj [(''jsonrpc'', JStr ''2.0''),
                         (''result'', JObj [(''image'', JStr ''data:image/png;base64,iVBORw0KGgo='')]),
                         (''id'', JNum 1)])\<rparr>"

section \<open>The server side, from the specification\<close>

text \<open>
  The tools above only post requests. The components that serve them (coordinate
  resolution, backend fallback, rate limiting) belong to the RPC server, which is not
  among the sources; each is modelled from the words of the specification.
\<close>

subsection \<open>CoordinateMapper\<close>









subsection \<open>BackendRouter\<close>

type_synonym backend_id = string

datatype op_class = Capture | Mouse | Keyboard | Window | Ocr | SystemCommand

datatype backend_error = BackendTimeout | BackendFailure string

datatype exec_error = Unavailable | AllBackendsFailed "(backend_id \<times> backend_error) list"

record action_request =
  kind :: op_class
  backend_hint :: "backend_id option"
  params :: jsval
  monitor_id :: "nat option"

record action_result =
  ok :: bool
  backend_used :: "backend_id option"
  payload :: "jsval option"
  error :: "exec_error option"

text \<open>
  The usable backends of each operation class, in priority order; a native backend
  call, which succeeds with a payload or fails; and the attempts made, for the audit trail.
\<close>

type_synonym capabilities = "op_class \<Rightarrow> backend_id list"

type_synonym native = "backend_id \<Rightarrow> action_request \<Rightarrow> backend_error + jsval"

type_synonym attempt = "backend_id \<times> (backend_error + jsval)"

definition failed_attempts :: "(backend_id \<times> backend_error) list \<Rightarrow> attempt list" where
  "failed_attempts errs = map (\<lambda>be. (fst be, Inl (snd be))) errs"

text \<open>
  Modelled from the spec: the fallback loop of the BackendRouter is missing from the
  sources. "Try backends strictly in order; on the first success, stop and return. [...]
  an attempt that times out or raises is recorded and the next backend is tried. If all
  backends for the class fail, return ok=false with the aggregated per-backend error
  reasons"; with no usable backend the error is Unavailable; \<open>backend_used\<close> is
  "populated even on failure after at least one attempt" (here: the last one tried).
\<close>

fun try_backends ::
  "native \<Rightarrow> action_request \<Rightarrow> backend_id list \<Rightarrow> (backend_id \<times> backend_error) list \<Rightarrow>
     action_result \<times> attempt list" where
  "try_backends call req [] errs =
     (\<lparr>ok = False,
       backend_used = (if errs = [] then None else Some (fst (last errs))),
       payload = None,
       error = Some (if errs = [] then Unavailable else AllBackendsFailed errs)\<rparr>,
      failed_attempts errs)"
| "try_backends call req (b # bs) errs =
     (case call b req of
        Inr p \<Rightarrow>
          (\<lparr>ok = True, backend_used = Some b, payload = Some p, error = None\<rparr>,
           failed_attempts errs @ [(b, Inr p)])
      | Inl e \<Rightarrow> try_backends call req bs (errs @ [(b, e)]))"

text \<open>
  Modelled from the spec: \<open>execute\<close> of the BackendRouter is missing from the sources.
  "Look up the ordered backend list for request.kind from the current Capabilities (or
  [backend_hint] alone if the caller pinned one)".
\<close>

definition execute ::
  "capabilities \<Rightarrow> native \<Rightarrow> action_request \<Rightarrow> action_result \<times> attempt list" where
  "execute caps call req =
     try_backends call req
       (case backend_hint req of Some b \<Rightarrow> [b] | None \<Rightarrow> caps (kind req)) []"

text \<open>The reason each backend of a list gives when it fails, in the order of the list.\<close>

definition reasons ::
  "native \<Rightarrow> action_request \<Rightarrow> backend_id list \<Rightarrow> (backend_id \<times> backend_error) list" where
  "reasons call req bs = map (\<lambda>b. (b, projl (call b req))) bs"

text \<open>
  A host for concrete runs, with the backends in the order of the guide's hierarchy: the
  event-injection library lacks its permission, the generic automation library times
  out, and the legacy RPC server answers mouse requests only.
\<close>

definition sample_caps :: capabilities where
  "sample_caps c =
     (if c = Mouse then [''pynput'', ''pyautogui'', ''ab498_rpc'']
      else if c = Keyboard then [''pynput'', ''pyautogui'']
      else [])"

definition sample_native :: native where
  "sample_native b req =
     (if b = ''pynput'' then Inl (BackendFailure ''missing permission'')
      else if b = ''pyautogui'' then Inl BackendTimeout
      else if b = ''ab498_rpc'' \<and> kind req = Mouse then Inr (JStr ''clicked'')
      else Inl (BackendFailure ''unknown backend''))"

definition click_request :: action_request where
  "click_request =
     \<lparr>kind = Mouse, backend_hint = None,
      params = JObj [(''x_rel'', JNum 0.5), (''y_rel'', JNum 0.5)], monitor_id = Some 1\<rparr>"

definition type_request :: action_request where
  "type_request =
     \<lparr>kind = Keyboard, backend_hint = None, params = JObj [(''text'', JStr ''Hello'')],
      monitor_id = None\<rparr>"

subsection \<open>SafetyGovernor\<close>

datatype deny_reason = PermissionDenied | RateLimited

datatype decision = Allow | Deny deny_reason

record rate_window =
  window_start :: nat
  count :: nat
  limit :: nat

record audit_record =
  timestamp :: nat
  action_kind :: op_class
  outcome :: decision

record governor =
  enabled :: "op_class \<Rightarrow> bool"
  windows :: "op_class \<Rightarrow> rate_window"
  audit :: "audit_record list"

text \<open>The length of a window, in seconds: the limits are per minute.\<close>

definition window_seconds :: nat where
  "window_seconds = 60"

text \<open>
  Modelled from the spec: which classes are rate limited is missing from the sources.
  "mutating action (mouse, keyboard, window, system-command classes); read-only actions
  (capture, OCR) bypass rate limiting".
\<close>

fun mutating :: "op_class \<Rightarrow> bool" where
  "mutating Capture = False"
| "mutating Ocr = False"
| "mutating c = True"

text \<open>
  Modelled from the spec: the rate check of the SafetyGovernor is missing from the
  sources. A window that has elapsed is reset; then the check "increments the RateWindow
  counter for the action's category; if the count exceeds the configured per-minute
  limit, deny with RateLimited and do not increment past the limit (saturating counter)".
  Times are in seconds.
\<close>

definition rate_check :: "nat \<Rightarrow> rate_window \<Rightarrow> decision \<times> rate_window" where
  "rate_check now w =
     (let w' = (if window_start w + window_seconds \<le> now
                then w\<lparr>window_start := now, count := 0\<rparr> else w);
          c = count w' + 1
      in if limit w' < c then (Deny RateLimited, w') else (Allow, w'\<lparr>count := c\<rparr>))"

text \<open>
  Modelled from the spec: \<open>authorize\<close> of the SafetyGovernor is missing from the sources.
  "A disabled class is always denied, independent of rate state"; read-only classes
  bypass the rate check; "every authorize call, allowed or denied, produces exactly one
  AuditRecord".
\<close>

definition authorize :: "nat \<Rightarrow> op_class \<Rightarrow> governor \<Rightarrow> decision \<times> governor" where
  "authorize now c g =
     (let (d, ws) =
            (if \<not> enabled g c then (Deny PermissionDenied, windows g)
             else if \<not> mutating c then (Allow, windows g)
             else (case rate_check now (windows g c) of
                     (d, w') \<Rightarrow> (d, (windows g)(c := w'))))
      in (d, g\<lparr>windows := ws,
                audit := audit g @ [\<lparr>timestamp = now, action_kind = c, outcome = d\<rparr>]\<rparr>))"

text \<open>A sequence of calls of one class, at the given times, and their decisions.\<close>

fun authorize_all :: "nat list \<Rightarrow> op_class \<Rightarrow> governor \<Rightarrow> decision list \<times> governor" where
  "authorize_all [] c g = ([], g)"
| "authorize_all (t # ts) c g =
     (case authorize t c g of
        (d, g') \<Rightarrow> (case authorize_all ts c g' of (ds, g'') \<Rightarrow> (d # ds, g'')))"

text \<open>A governor with every class enabled and the same fresh window for each.\<close>

definition fresh_governor :: "nat \<Rightarrow> nat \<Rightarrow> governor" where
  "fresh_governor start n =
     \<lparr>enabled = (\<lambda>c. True),
      windows = (\<lambda>c. \<lparr>window_start = start, count = 0, limit = n\<rparr>),
      audit = []\<rparr>"

section \<open>The JSON-RPC helper: errors\<close>



text \<open>On a response whose status is in the 200s the two helpers agree.\<close>

lemma respond_ok_agree: "res_ok res \<Longrightarrow> respond_js (Some res) = respond_ts (Some res)"
  by (simp add: respond_js_def respond_ts_def)




text \<open>
  C10: the two helpers are not equivalent. On a response with status 500 and a JSON body
  without an \<open>error\<close> property the compiled helper throws \<open>HTTP 500\<close>, while the
  TypeScript helper returns \<open>undefined\<close>, so that \<open>click_screen\<close> reports
  \<open>"clicked"\<close>.
\<close>

theorem callRpc_variants_differ_on_http_error:
  "snd (callRpc_js (always internal_error_response) port ''click_screen'' (JObj [])) =
     Inl (HttpError 500) \<and>
   snd (callRpc_ts (always internal_error_response) port ''click_screen'' (JObj [])) =
     Inr Undefined \<and>
   snd (clickScreen (always internal_error_response) (JObj [])) = Inr (JStr ''clicked'')"
  by (simp add: callRpc_ts_def callRpc_js_def respond_ts_def respond_js_def result_of_def
      always_def internal_error_response_def res_ok_def field_def
      clickScreen_def click_screen_parameters_def tool_def z_object_def then_return_def
      z_optional_def z_default_def z_enum_def)

section \<open>Parameter validation\<close>

text \<open>What \<open>z.object\<close> collects, key by key, and what the tool does with it.\<close>

lemma parse_shape_issues:
  "fst (parse_shape shape kvs) =
     concat (map (\<lambda>(k, t). case t (field kvs k) of Inl i \<Rightarrow> [(k, i)] | Inr v \<Rightarrow> []) shape)"
  by (induction shape) (auto split: prod.splits sum.splits)


lemma z_object_JObj:
  "z_object shape (JObj kvs) =
     (if fst (parse_shape shape kvs) = [] then Inr (JObj (snd (parse_shape shape kvs)))
      else Inl (ParamsInvalid (fst (parse_shape shape kvs))))"
  by (cases "parse_shape shape kvs") (auto simp: z_object_def split: list.splits)

lemma tool_JObj:
  "tool shape impl srv (JObj kvs) =
     (if fst (parse_shape shape kvs) = [] then impl srv (JObj (snd (parse_shape shape kvs)))
      else ([], Inl (ParamsInvalid (fst (parse_shape shape kvs)))))"
  by (simp add: tool_def z_object_JObj)

lemma optional_number:
  "z_optional z_number v = (if absent_or is_num v then Inr v else Inl invalid_type)"
  by (cases v) (simp_all add: z_optional_def z_number_def absent_or_def)

lemma optional_unit:
  "z_optional (z_max 1 (z_min 0 z_number)) v =
     (if absent_or in_unit v then Inr v
      else case v of JNum r \<Rightarrow> if r < 0 then Inl too_small else Inl too_big | _ \<Rightarrow> Inl invalid_type)"
  by (cases v) (auto simp add: z_optional_def z_max_def z_min_def z_number_def absent_or_def)

lemma default_button:
  "z_default (JStr ''left'') (z_optional (z_enum [''left'', ''right'', ''middle''])) v =
     (if absent_or is_button v then Inr (with_default (JStr ''left'') v)
      else case v of JStr s \<Rightarrow> Inl invalid_enum_value | _ \<Rightarrow> Inl invalid_type)"
  by (cases v) (auto simp add: z_default_def z_optional_def z_enum_def absent_or_def with_default_def)

lemma default_number:
  "z_default (JNum d) (z_optional z_number) v =
     (if absent_or is_num v then Inr (with_default (JNum d) v) else Inl invalid_type)"
  by (cases v) (auto simp add: z_default_def z_optional_def z_number_def absent_or_def with_default_def)





lemma click_issues_invalid:
  "\<not> valid_click kvs \<Longrightarrow> fst (parse_shape click_screen_parameters kvs) \<noteq> []"
  unfolding click_screen_parameters_def parse_shape_issues default_button
  unfolding optional_number optional_unit valid_click_def valid_coordinates_def
  by (auto split: jsval.splits)



lemma move_issues_invalid:
  "\<not> valid_move kvs \<Longrightarrow> fst (parse_shape move_mouse_parameters kvs) \<noteq> []"
  unfolding move_mouse_parameters_def parse_shape_issues default_number
  unfolding optional_number optional_unit valid_move_def valid_coordinates_def
  by (auto split: jsval.splits)



lemma clickScreen_invalid:
  assumes "\<not> valid_click kvs"
  shows "clickScreen srv (JObj kvs) =
           ([], Inl (ParamsInvalid (fst (parse_shape click_screen_parameters kvs))))"
  unfolding clickScreen_def tool_JObj
  using click_issues_invalid[OF assms] by simp


lemma moveMouse_invalid:
  assumes "\<not> valid_move kvs"
  shows "moveMouse srv (JObj kvs) =
           ([], Inl (ParamsInvalid (fst (parse_shape move_mouse_parameters kvs))))"
  unfolding moveMouse_def tool_JObj
  using move_issues_invalid[OF assms] by simp

lemma tool_not_object:
  "(\<And>kvs. raw \<noteq> JObj kvs) \<Longrightarrow> tool shape impl srv raw = ([], Inl (ParamsInvalid [([], invalid_type)]))"
  by (cases raw) (auto simp: tool_def z_object_def)




text \<open>
  C4: a \<open>click_screen\<close> or \<open>move_mouse\<close> request whose \<open>x_rel\<close> or \<open>y_rel\<close> is a number
  below 0 or above 1 is refused by the parameter schema, and no request is posted to the
  RPC server.
\<close>

theorem relative_out_of_range_rejected:
  assumes "arg raw ''x_rel'' = JNum r \<or> arg raw ''y_rel'' = JNum r" and "r < 0 \<or> 1 < r"
  shows "(\<exists>issues. clickScreen srv raw = ([], Inl (ParamsInvalid issues))) \<and>
         (\<exists>issues. moveMouse srv raw = ([], Inl (ParamsInvalid issues)))"
proof -
  from assms(1) obtain kvs where raw: "raw = JObj kvs"
    by (cases raw) (auto simp: arg_def)
  with assms(1) have "field kvs ''x_rel'' = JNum r \<or> field kvs ''y_rel'' = JNum r"
    by (simp add: arg_def)
  with assms(2) have "\<not> valid_coordinates kvs"
    by (auto simp: valid_coordinates_def absent_or_def)
  then have "\<not> valid_click kvs" and "\<not> valid_move kvs"
    by (simp_all add: valid_click_def valid_move_def)
  then show ?thesis
    unfolding raw by (simp add: clickScreen_invalid moveMouse_invalid)
qed

text \<open>C4, a run of it: \<open>x_rel = 1.5\<close> is refused as too big by both tools.\<close>

theorem relative_out_of_range_rejected_witness:
  "arg (JObj [(''x_rel'', JNum 1.5), (''y_rel'', JNum 0.5)]) ''x_rel'' = JNum 1.5 \<and>
   (1::real) < 1.5 \<and>
   clickScreen (always done_response) (JObj [(''x_rel'', JNum 1.5), (''y_rel'', JNum 0.5)]) =
     ([], Inl (ParamsInvalid [(''x_rel'', too_big)])) \<and>
   moveMouse (always done_response) (JObj [(''x_rel'', JNum 1.5), (''y_rel'', JNum 0.5)]) =
     ([], Inl (ParamsInvalid [(''x_rel'', too_big)]))"
  using relative_out_of_range_rejected
      [of "JObj [(''x_rel'', JNum 1.5), (''y_rel'', JNum 0.5)]" "1.5" "always done_response"]
  by (simp add: arg_def field_def clickScreen_def moveMouse_def tool_JObj
      click_screen_parameters_def move_mouse_parameters_def z_optional_def z_default_def
      z_enum_def z_number_def z_max_def z_min_def)

section \<open>Defaults and results of the tools\<close>



text \<open>
  C8: on a successful response to the capture request (status in the 200s, a JSON body
  with no truthy \<open>error\<close>) both \<open>screen_capture\<close> and \<open>take_screenshot\<close> return exactly
  the \<open>image\<close> property of the JSON-RPC \<open>result\<close>, unchanged; the tools post one request
  with empty parameters. The data URI is whatever the server put there: the tools pass it
  through.
\<close>

theorem screenshot_tools_return_image:
  assumes "res_ok res" and "json res = Some data"
    and "get_prop data ''error'' = Inr err" and "\<not> truthy err"
    and "get_prop data ''result'' = Inr r"
  shows "(srv (rpc_call ''screen_capture'' (JObj [])) = Some res \<longrightarrow>
            screenCapture srv (JObj kvs) =
              ([rpc_call ''screen_capture'' (JObj [])], get_prop r ''image'')) \<and>
         (srv (rpc_call ''take_screenshot'' (JObj [])) = Some res \<longrightarrow>
            takeScreenshot srv (JObj kvs) =
              ([rpc_call ''take_screenshot'' (JObj [])], get_prop r ''image''))"
  using assms
  by (simp add: screenCapture_def takeScreenshot_def tool_JObj then_prop_def callRpc_js_def
      callRpc_ts_def respond_js_def respond_ts_def result_of_def rpc_call_def rpc_payload_def)

text \<open>
  C8, a run of it: the result \<open>{"image": "data:image/png;base64,..."}\<close> comes back as
  that very data URI from both tools.
\<close>

theorem screenshot_tools_return_image_witness:
  "res_ok image_response \<and>
   screenCapture (always image_response) (JObj []) =
     ([rpc_call ''screen_capture'' (JObj [])], Inr (JStr ''data:image/png;base64,iVBORw0KGgo='')) \<and>
   takeScreenshot (always image_response) (JObj []) =
     ([rpc_call ''take_screenshot'' (JObj [])], Inr (JStr ''data:image/png;base64,iVBORw0KGgo=''))"
  using screenshot_tools_return_image
    [of image_response
        "JObj [(''jsonrpc'', JStr ''2.0''),
               (''result'', JObj [(''image'', JStr ''data:image/png;base64,iVBORw0KGgo='')]),
               (''id'', JNum 1)]"
        Undefined "JObj [(''image'', JStr ''data:image/png;base64,iVBORw0KGgo='')]"
        "always image_response" "[]"]
  by (simp add: image_response_def res_ok_def always_def field_def)

section \<open>CoordinateMapper\<close>









section \<open>BackendRouter\<close>

lemma failed_attempts_reasons:
  "list_all (\<lambda>b. isl (call b req)) bs \<Longrightarrow>
     failed_attempts (reasons call req bs) = map (\<lambda>b. (b, call b req)) bs"
  by (induction bs) (auto simp: failed_attempts_def reasons_def)

lemma try_backends_first_success:
  assumes "list_all (\<lambda>b. isl (call b req)) xs" and "call c req = Inr p"
  shows "try_backends call req (xs @ c # ys) errs =
           (\<lparr>ok = True, backend_used = Some c, payload = Some p, error = None\<rparr>,
            failed_attempts (errs @ reasons call req xs) @ [(c, Inr p)])"
  using assms
proof (induction xs arbitrary: errs)
  case Nil
  then show ?case by (simp add: reasons_def)
next
  case (Cons x xs)
  then obtain e where e: "call x req = Inl e"
    by (cases "call x req") auto
  with Cons show ?case by (simp add: reasons_def)
qed

lemma try_backends_all_fail:
  assumes "list_all (\<lambda>b. isl (call b req)) bs" and "errs @ reasons call req bs \<noteq> []"
  shows "try_backends call req bs errs =
           (\<lparr>ok = False, backend_used = Some (fst (last (errs @ reasons call req bs))),
             payload = None, error = Some (AllBackendsFailed (errs @ reasons call req bs))\<rparr>,
            failed_attempts (errs @ reasons call req bs))"
  using assms
proof (induction bs arbitrary: errs)
  case Nil
  then show ?case by (simp add: reasons_def)
next
  case (Cons b bs)
  then obtain e where e: "call b req = Inl e"
    by (cases "call b req") auto
  with Cons.prems Cons.IH[of "errs @ [(b, e)]"] show ?case by (simp add: reasons_def)
qed

text \<open>
  C6: with the backend list \<open>[A, B, C]\<close> where \<open>A\<close> and \<open>B\<close> fail and \<open>C\<close> succeeds,
  \<open>execute\<close> returns \<open>ok = true\<close> with \<open>backend_used = C\<close> after the attempts \<open>A\<close>,
  \<open>B\<close>, \<open>C\<close> in this order. In general the backends are tried strictly in order and
  the first success ends the run: the backends after it are never called. If every
  backend of a non-empty list fails, \<open>execute\<close> returns \<open>ok = false\<close> with the reason of
  each backend, in the order of the list.
\<close>

theorem execute_falls_back_in_order:
  "(backend_hint req = None \<and> caps (kind req) = [A, B, C] \<and>
    call A req = Inl ea \<and> call B req = Inl eb \<and> call C req = Inr p \<longrightarrow>
      execute caps call req =
        (\<lparr>ok = True, backend_used = Some C, payload = Some p, error = None\<rparr>,
         [(A, Inl ea), (B, Inl eb), (C, Inr p)])) \<and>
   (backend_hint req = None \<and> caps (kind req) = xs @ c # ys \<and>
    list_all (\<lambda>b. isl (call b req)) xs \<and> call c req = Inr p \<longrightarrow>
      execute caps call req =
        (\<lparr>ok = True, backend_used = Some c, payload = Some p, error = None\<rparr>,
         map (\<lambda>b. (b, call b req)) xs @ [(c, Inr p)])) \<and>
   (backend_hint req = None \<and> caps (kind req) = bs \<and> bs \<noteq> [] \<and>
    list_all (\<lambda>b. isl (call b req)) bs \<longrightarrow>
      execute caps call req =
        (\<lparr>ok = False, backend_used = Some (last bs), payload = None,
          error = Some (AllBackendsFailed (reasons call req bs))\<rparr>,
         map (\<lambda>b. (b, call b req)) bs))"
proof (intro conjI impI)
  assume h: "backend_hint req = None \<and> caps (kind req) = [A, B, C] \<and>
    call A req = Inl ea \<and> call B req = Inl eb \<and> call C req = Inr p"
  then show "execute caps call req =
        (\<lparr>ok = True, backend_used = Some C, payload = Some p, error = None\<rparr>,
         [(A, Inl ea), (B, Inl eb), (C, Inr p)])"
    by (simp add: execute_def failed_attempts_def)
next
  assume h: "backend_hint req = None \<and> caps (kind req) = xs @ c # ys \<and>
    list_all (\<lambda>b. isl (call b req)) xs \<and> call c req = Inr p"
  then have "try_backends call req (xs @ c # ys) [] =
           (\<lparr>ok = True, backend_used = Some c, payload = Some p, error = None\<rparr>,
            failed_attempts ([] @ reasons call req xs) @ [(c, Inr p)])"
    by (intro try_backends_first_success) simp_all
  with h show "execute caps call req =
        (\<lparr>ok = True, backend_used = Some c, payload = Some p, error = None\<rparr>,
         map (\<lambda>b. (b, call b req)) xs @ [(c, Inr p)])"
    by (simp add: execute_def failed_attempts_reasons)
next
  assume h: "backend_hint req = None \<and> caps (kind req) = bs \<and> bs \<noteq> [] \<and>
    list_all (\<lambda>b. isl (call b req)) bs"
  then have ne: "[] @ reasons call req bs \<noteq> []"
    by (simp add: reasons_def)
  from h have "try_backends call req bs [] =
           (\<lparr>ok = False, backend_used = Some (fst (last ([] @ reasons call req bs))),
             payload = None, error = Some (AllBackendsFailed ([] @ reasons call req bs))\<rparr>,
            failed_attempts ([] @ reasons call req bs))"
    by (intro try_backends_all_fail[OF _ ne]) simp
  moreover from h have "fst (last (reasons call req bs)) = last bs"
    by (simp add: reasons_def last_map)
  ultimately show "execute caps call req =
        (\<lparr>ok = False, backend_used = Some (last bs), payload = None,
          error = Some (AllBackendsFailed (reasons call req bs))\<rparr>,
         map (\<lambda>b. (b, call b req)) bs)"
    using h by (simp add: execute_def failed_attempts_reasons)
qed

text \<open>
  C6, runs of it: a mouse request falls back from two failing backends to the third; a
  keyboard request for which both backends fail comes back with both reasons.
\<close>

theorem execute_falls_back_in_order_witness:
  "execute sample_caps sample_native click_request =
     (\<lparr>ok = True, backend_used = Some ''ab498_rpc'', payload = Some (JStr ''clicked''),
       error = None\<rparr>,
      [(''pynput'', Inl (BackendFailure ''missing permission'')),
       (''pyautogui'', Inl BackendTimeout),
       (''ab498_rpc'', Inr (JStr ''clicked''))]) \<and>
   execute sample_caps sample_native type_request =
     (\<lparr>ok = False, backend_used = Some ''pyautogui'', payload = None,
       error = Some (AllBackendsFailed [(''pynput'', BackendFailure ''missing permission''),
                                        (''pyautogui'', BackendTimeout)])\<rparr>,
      [(''pynput'', Inl (BackendFailure ''missing permission'')),
       (''pyautogui'', Inl BackendTimeout)])"
  using execute_falls_back_in_order
      [where req = click_request and caps = sample_caps and call = sample_native
         and A = "''pynput''" and B = "''pyautogui''" and C = "''ab498_rpc''"
         and ea = "BackendFailure ''missing permission''" and eb = BackendTimeout
         and p = "JStr ''clicked''" and xs = "[''pynput'', ''pyautogui'']"
         and c = "''ab498_rpc''" and ys = "[]" and bs = "[''pynput'', ''pyautogui'', ''ab498_rpc'']"]
    execute_falls_back_in_order
      [where req = type_request and caps = sample_caps and call = sample_native
         and bs = "[''pynput'', ''pyautogui'']" and xs = "[]" and c = "''none''" and ys = "[]"]
  by (simp add: sample_caps_def sample_native_def click_request_def type_request_def reasons_def)

section \<open>SafetyGovernor\<close>

lemma rate_check_within:
  "now < window_start w + window_seconds \<Longrightarrow>
     rate_check now w =
       (if count w < limit w then (Allow, w\<lparr>count := count w + 1\<rparr>) else (Deny RateLimited, w))"
  by (auto simp: rate_check_def Let_def)

lemma rate_check_elapsed:
  "window_start w + window_seconds \<le> now \<Longrightarrow>
     rate_check now w =
       (if 0 < limit w then (Allow, w\<lparr>window_start := now, count := 1\<rparr>)
        else (Deny RateLimited, w\<lparr>window_start := now, count := 0\<rparr>))"
  by (auto simp: rate_check_def Let_def)

lemma rate_check_bounded:
  "count w \<le> limit w \<Longrightarrow> count (snd (rate_check now w)) \<le> limit (snd (rate_check now w))"
  by (auto simp: rate_check_def Let_def)

lemma authorize_mutating:
  "enabled g c \<Longrightarrow> mutating c \<Longrightarrow>
     authorize now c g =
       (fst (rate_check now (windows g c)),
        g\<lparr>windows := (windows g)(c := snd (rate_check now (windows g c))),
          audit := audit g @ [\<lparr>timestamp = now, action_kind = c,
                               outcome = fst (rate_check now (windows g c))\<rparr>]\<rparr>)"
  by (simp add: authorize_def split: prod.splits)

lemma authorize_enabled: "enabled (snd (authorize now c g)) = enabled g"
  by (simp add: authorize_def split: prod.splits)

lemma authorize_bounded:
  "count (windows g c) \<le> limit (windows g c) \<Longrightarrow>
     count (windows (snd (authorize now c g)) c) \<le> limit (windows (snd (authorize now c g)) c)"
  by (auto simp: authorize_def rate_check_bounded split: prod.splits
      dest: rate_check_bounded[where now = now])

lemma authorize_all_step:
  "fst (authorize_all (t # ts) c g) =
     fst (authorize t c g) # fst (authorize_all ts c (snd (authorize t c g)))"
  "snd (authorize_all (t # ts) c g) = snd (authorize_all ts c (snd (authorize t c g)))"
  by (simp_all split: prod.splits)

lemma authorize_all_bounded:
  "count (windows g c) \<le> limit (windows g c) \<Longrightarrow>
     count (windows (snd (authorize_all ts c g)) c) \<le> limit (windows (snd (authorize_all ts c g)) c)"
proof (induction ts arbitrary: g)
  case Nil
  then show ?case by simp
next
  case (Cons t ts)
  from Cons.IH[OF authorize_bounded[OF Cons.prems, of t]] show ?case
    by (simp only: authorize_all_step)
qed

lemma authorize_all_within:
  assumes "enabled g c" and "mutating c"
    and "list_all (\<lambda>t. t < window_start (windows g c) + window_seconds) ts"
  shows "fst (authorize_all ts c g) =
           map (\<lambda>i. if count (windows g c) + i < limit (windows g c) then Allow
                     else Deny RateLimited) [0..<length ts] \<and>
         windows (snd (authorize_all ts c g)) c =
           (windows g c)\<lparr>count := (if count (windows g c) \<le> limit (windows g c)
                                     then min (count (windows g c) + length ts) (limit (windows g c))
                                     else count (windows g c))\<rparr> \<and>
         enabled (snd (authorize_all ts c g)) = enabled g"
  using assms
proof (induction ts arbitrary: g)
  case Nil
  then show ?case by simp
next
  case (Cons t ts)
  let ?g' = "snd (authorize t c g)"
  from Cons.prems have t: "t < window_start (windows g c) + window_seconds" by simp
  have w': "windows ?g' c =
      (if count (windows g c) < limit (windows g c)
       then (windows g c)\<lparr>count := count (windows g c) + 1\<rparr> else windows g c)"
    using Cons.prems(1,2) t by (simp add: authorize_mutating rate_check_within)
  have d: "fst (authorize t c g) =
      (if count (windows g c) < limit (windows g c) then Allow else Deny RateLimited)"
    using Cons.prems(1,2) t by (simp add: authorize_mutating rate_check_within)
  have en: "enabled ?g' c" using Cons.prems(1) by (simp add: authorize_enabled)
  have ts: "list_all (\<lambda>t. t < window_start (windows ?g' c) + window_seconds) ts"
    using Cons.prems(3) by (simp add: w')
  note IH = Cons.IH[OF en Cons.prems(2) ts]
  have shift: "[0..<Suc (length ts)] = 0 # map Suc [0..<length ts]"
    by (simp add: upt_conv_Cons map_Suc_upt del: upt_Suc)
  show ?case
    using IH d
    by (auto simp: authorize_all_step w' shift authorize_enabled
        simp del: upt_Suc authorize_all.simps)
qed

lemma upt_six: "[0..<6] = [0, 1, 2, 3, 4, 5]"
  by code_simp

text \<open>
  C7: for an enabled mutating class with limit 5 and a fresh window, six calls within
  the window get five times \<open>Allow\<close> and then \<open>Deny RateLimited\<close>. In general, of the
  calls within one window exactly the first \<open>limit\<close> are allowed, and the counter ends
  at the smaller of the number of calls and the limit. Whatever the times of the calls,
  a counter that is at most the limit stays at most the limit. And once the window has
  elapsed the next call resets the counter and is allowed again.
\<close>

theorem rate_limit_window:
  "(enabled g c \<and> mutating c \<and> count (windows g c) = 0 \<and> limit (windows g c) = 5 \<and>
    length ts = 6 \<and> list_all (\<lambda>t. t < window_start (windows g c) + window_seconds) ts \<longrightarrow>
      fst (authorize_all ts c g) = [Allow, Allow, Allow, Allow, Allow, Deny RateLimited]) \<and>
   (enabled g c \<and> mutating c \<and> count (windows g c) = 0 \<and>
    list_all (\<lambda>t. t < window_start (windows g c) + window_seconds) ts \<longrightarrow>
      fst (authorize_all ts c g) =
        map (\<lambda>i. if i < limit (windows g c) then Allow else Deny RateLimited) [0..<length ts] \<and>
      count (windows (snd (authorize_all ts c g)) c) = min (length ts) (limit (windows g c))) \<and>
   (count (windows g c) \<le> limit (windows g c) \<longrightarrow>
      count (windows (snd (authorize_all us c g)) c) \<le>
        limit (windows (snd (authorize_all us c g)) c)) \<and>
   (enabled g c \<and> mutating c \<and> 0 < limit (windows g c) \<and>
    window_start (windows g c) + window_seconds \<le> now \<longrightarrow>
      fst (authorize now c g) = Allow \<and>
      count (windows (snd (authorize now c g)) c) = 1 \<and>
      window_start (windows (snd (authorize now c g)) c) = now)"
proof (intro conjI impI)
  assume h: "enabled g c \<and> mutating c \<and> count (windows g c) = 0 \<and> limit (windows g c) = 5 \<and>
    length ts = 6 \<and> list_all (\<lambda>t. t < window_start (windows g c) + window_seconds) ts"
  then have "fst (authorize_all ts c g) =
      map (\<lambda>i. if count (windows g c) + i < limit (windows g c) then Allow
                else Deny RateLimited) [0..<length ts]"
    using authorize_all_within[of g c ts] by simp
  with h show "fst (authorize_all ts c g) = [Allow, Allow, Allow, Allow, Allow, Deny RateLimited]"
    by (simp add: upt_six)
next
  assume h: "enabled g c \<and> mutating c \<and> count (windows g c) = 0 \<and>
    list_all (\<lambda>t. t < window_start (windows g c) + window_seconds) ts"
  then show "fst (authorize_all ts c g) =
        map (\<lambda>i. if i < limit (windows g c) then Allow else Deny RateLimited) [0..<length ts]"
    and "count (windows (snd (authorize_all ts c g)) c) = min (length ts) (limit (windows g c))"
    using authorize_all_within[of g c ts] by simp_all
next
  assume "count (windows g c) \<le> limit (windows g c)"
  then show "count (windows (snd (authorize_all us c g)) c) \<le>
        limit (windows (snd (authorize_all us c g)) c)"
    by (rule authorize_all_bounded)
next
  assume h: "enabled g c \<and> mutating c \<and> 0 < limit (windows g c) \<and>
    window_start (windows g c) + window_seconds \<le> now"
  then show "fst (authorize now c g) = Allow"
    and "count (windows (snd (authorize now c g)) c) = 1"
    and "window_start (windows (snd (authorize now c g)) c) = now"
    by (simp_all add: authorize_mutating rate_check_elapsed)
qed

text \<open>
  C7, a run of it: limit 5, a window that starts at second 100; the calls at seconds 100
  to 140 are allowed, the call at 159 is denied, and the call at 160 is allowed.
\<close>

theorem rate_limit_window_witness:
  "fst (authorize_all [100, 110, 120, 130, 140, 159] Mouse (fresh_governor 100 5)) =
     [Allow, Allow, Allow, Allow, Allow, Deny RateLimited] \<and>
   count (windows (snd (authorize_all [100, 110, 120, 130, 140, 159] Mouse
                          (fresh_governor 100 5))) Mouse) = 5 \<and>
   fst (authorize 160 Mouse
          (snd (authorize_all [100, 110, 120, 130, 140, 159] Mouse (fresh_governor 100 5)))) =
     Allow \<and>
   count (windows (snd (authorize 160 Mouse
            (snd (authorize_all [100, 110, 120, 130, 140, 159] Mouse (fresh_governor 100 5)))))
          Mouse) = 1"
proof -
  let ?g = "fresh_governor 100 5"
  let ?ts = "[100, 110, 120, 130, 140, 159] :: nat list"
  have start: "enabled ?g Mouse" "mutating Mouse" "count (windows ?g Mouse) = 0"
    "limit (windows ?g Mouse) = 5" "length ?ts = 6"
    "list_all (\<lambda>t. t < window_start (windows ?g Mouse) + window_seconds) ?ts"
    by (simp_all add: fresh_governor_def window_seconds_def)
  from authorize_all_within[OF start(1,2,6)]
  have final: "enabled (snd (authorize_all ?ts Mouse ?g)) Mouse"
    "0 < limit (windows (snd (authorize_all ?ts Mouse ?g)) Mouse)"
    "window_start (windows (snd (authorize_all ?ts Mouse ?g)) Mouse) + window_seconds \<le> 160"
    by (simp_all add: fresh_governor_def window_seconds_def)
  show ?thesis
    using rate_limit_window[where g = ?g and c = Mouse and ts = ?ts and us = ?ts and now = 160]
      rate_limit_window[where g = "snd (authorize_all ?ts Mouse ?g)" and c = Mouse
        and ts = "[]" and us = "[]" and now = 160]
      start final
    by simp
qed

end
